theory Spec2Isabelle
  imports Complex_Main "HOL-Library.Word"
begin

section \<open>Two-view geometry estimation: the binding functions of \<open>src/estimators\<close>\<close>

text \<open>
  The two source files, \<open>essential_matrix.cc\<close> and \<open>fundamental_matrix.cc\<close>, hold the
  functions \<open>essential_matrix_estimation\<close> and \<open>fundamental_matrix_estimation\<close>, each in
  two overloads (an options struct, or five scalars). They call into the COLMAP library
  (the LO-RANSAC engine, the camera model, pose recovery, the pseudorandom generator),
  which is not part of the sources. The library is a parameter of the model: a record
  \<open>colmap\<close> of functions, over which every theorem is universally quantified.

  A \<open>double\<close> is a type variable \<open>'d\<close> of the syntactic classes \<open>plus\<close>, \<open>times\<close>,
  \<open>inverse\<close> and \<open>numeral\<close> only: no law of arithmetic is assumed, so what is proved
  holds for IEEE arithmetic as for the reals. A \<open>size_t\<close> is a \<open>nat\<close> (no arithmetic is
  done on sizes beyond counting up to a vector's length), a C \<open>int\<close> is an \<open>int\<close> (it is
  only stored), and a \<open>char\<close> of the inlier mask is an \<open>8 word\<close>.
\<close>

subsection \<open>Data\<close>

type_synonym 'd Vector2d = "'d \<times> 'd"
type_synonym 'd Vector3d = "'d \<times> 'd \<times> 'd"
type_synonym 'd Matrix3d = "'d Vector3d \<times> 'd Vector3d \<times> 'd Vector3d"
type_synonym 'd Quaterniond = "'d \<times> 'd \<times> 'd \<times> 'd"

text \<open>\<open>Rigid3d\<close>: the relative pose, a rotation and a translation.\<close>

record 'd Rigid3d =
  rotation :: "'d Quaterniond"
  translation :: "'d Vector3d"

text \<open>
  \<open>RANSACOptions\<close>: the five fields that the scalar overloads assign. The struct is
  declared in the library; the record is extensible, and the functions below are stated
  for the record scheme, so that they cover a struct with further fields
  (\<open>RANSACOptions.more\<close>), which the scalar overloads leave at their defaults.
\<close>

record 'd RANSACOptions =
  max_error :: 'd
  min_inlier_ratio :: 'd
  min_num_trials :: int
  max_num_trials :: int
  confidence :: 'd

text \<open>The engine's report, with the fields that the source reads.\<close>

record Support =
  num_inliers :: nat

record 'd Report =
  success :: bool
  support :: Support
  inlier_mask :: "8 word list"
  model :: "'d Matrix3d"

text \<open>The values stored in the returned \<open>py::dict\<close>, and the dict itself as a map.\<close>

datatype 'd pyval =
    PyBool bool
  | PySizeT nat
  | PyBoolList "bool list"
  | PyMatrix3d "'d Matrix3d"
  | PyRigid3d "'d Rigid3d"

type_synonym 'd pydict = "string \<rightharpoonup> 'd pyval"

text \<open>
  The state outside the call: the pseudorandom generator that \<open>SetPRNGSeed\<close> replaces and
  that the engine draws from, and whether the calling thread holds the interpreter lock,
  which \<open>py::gil_scoped_release\<close> and \<open>py::gil_scoped_acquire\<close> change.
\<close>

record 'g world =
  PRNG :: 'g
  gil_held :: bool

text \<open>
  What a call can raise. \<open>PreconditionViolation\<close> is the exception of \<open>THROW_CHECK_EQ\<close>.
  \<open>OutOfBounds\<close> stands for a read past the end of a \<open>std::vector\<close> with \<open>operator[]\<close>,
  which C++ leaves undefined.
\<close>

datatype error = PreconditionViolation | OutOfBounds

subsection \<open>The library, as a parameter\<close>

record ('d, 'cam, 'g, 'z) colmap =
  mt19937 :: "nat \<Rightarrow> 'g"
  CamFromImg :: "'cam \<Rightarrow> 'd Vector2d \<Rightarrow> 'd Vector2d"
  MeanFocalLength :: "'cam \<Rightarrow> 'd"
  LORANSAC_FivePoint_Estimate ::
    "('d, 'z) RANSACOptions_scheme \<Rightarrow> 'd Vector2d list \<Rightarrow> 'd Vector2d list \<Rightarrow> 'g
      \<Rightarrow> 'd Report \<times> 'g"
  LORANSAC_SevenEightPoint_Estimate ::
    "('d, 'z) RANSACOptions_scheme \<Rightarrow> 'd Vector2d list \<Rightarrow> 'd Vector2d list \<Rightarrow> 'g
      \<Rightarrow> 'd Report \<times> 'g"
  PoseFromEssentialMatrix ::
    "'d Matrix3d \<Rightarrow> 'd Vector2d list \<Rightarrow> 'd Vector2d list
      \<Rightarrow> 'd Matrix3d \<times> 'd Vector3d \<times> 'd Vector3d list"
  Quaterniond :: "'d Matrix3d \<Rightarrow> 'd Quaterniond"
  RANSACOptions_default :: "('d, 'z) RANSACOptions_scheme"

text \<open>
  \<^item> \<open>mt19937 seed\<close>: the generator state that seeding with \<open>seed\<close> produces.
  \<^item> \<open>CamFromImg\<close>, \<open>MeanFocalLength\<close>: the camera model (both are read-only members).
  \<^item> \<open>LORANSAC_FivePoint_Estimate\<close>: \<open>Estimate\<close> of the engine instantiated with the
    five-point estimator in both roles; \<open>LORANSAC_SevenEightPoint_Estimate\<close>: with the
    seven-point and eight-point estimators. Either takes the generator state and returns
    the state left after its draws.
  \<^item> \<open>PoseFromEssentialMatrix\<close>: returns what the library writes through its three output
    pointers: the rotation matrix, the translation and the triangulated points.
  \<^item> \<open>Quaterniond\<close>: the quaternion of a rotation matrix.
  \<^item> \<open>RANSACOptions_default\<close>: a default-constructed options struct.
\<close>

text \<open>
  Modelled from the spec: \<open>SetPRNGSeed\<close> of the library's \<open>math/random.h\<close>, which is not
  among the sources. The spec: "Seed a process-wide deterministic pseudorandom generator
  (fixed seed)". The generator state becomes the one the seed determines.
\<close>

definition SetPRNGSeed :: "('d, 'cam, 'g, 'z) colmap \<Rightarrow> nat \<Rightarrow> 'g world \<Rightarrow> 'g world" where
  "SetPRNGSeed env seed w = w\<lparr>PRNG := mt19937 env seed\<rparr>"

text \<open>
  Modelled from the spec: the macro \<open>THROW_CHECK_EQ\<close> of \<open>log_exceptions.h\<close>, which is not
  among the sources. The spec: lengths must be equal, "else a precondition violation is
  signaled to the caller".
\<close>

definition THROW_CHECK_EQ :: "nat \<Rightarrow> nat \<Rightarrow> error + unit" where
  "THROW_CHECK_EQ val1 val2 = (if val1 = val2 then Inr () else Inl PreconditionViolation)"

text \<open>
  The two scope guards of pybind11. \<open>gil_scoped_release\<close> gives the lock up when it is
  constructed and takes it back when it is destroyed. \<open>gil_scoped_acquire\<close> takes the lock
  when it is constructed, if the thread does not hold it, and remembers whether it did;
  it gives the lock up again when it is destroyed, if it took it.
\<close>

definition gil_scoped_release :: "'g world \<Rightarrow> 'g world" where
  "gil_scoped_release w = w\<lparr>gil_held := False\<rparr>"

definition gil_scoped_release_exit :: "'g world \<Rightarrow> 'g world" where
  "gil_scoped_release_exit w = w\<lparr>gil_held := True\<rparr>"

definition gil_scoped_acquire :: "'g world \<Rightarrow> bool \<times> 'g world" where
  "gil_scoped_acquire w = (\<not> gil_held w, w\<lparr>gil_held := True\<rparr>)"

definition gil_scoped_acquire_exit :: "bool \<Rightarrow> 'g world \<Rightarrow> 'g world" where
  "gil_scoped_acquire_exit release w = (if release then w\<lparr>gil_held := False\<rparr> else w)"

subsection \<open>The loops\<close>

text \<open>
  \<^verbatim>\<open>for (size_t idx = 0; idx < points2D.size(); ++idx)
    world_points2D.push_back(camera.CamFromImg(points2D[idx]));\<close>
  The read is in range by the loop condition.
\<close>

function image_to_world ::
  "('p \<Rightarrow> 'p) \<Rightarrow> 'p list \<Rightarrow> nat \<Rightarrow> 'p list \<Rightarrow> 'p list" where
  "image_to_world cam_from_img points2D idx world_points2D =
     (if idx < length points2D
      then image_to_world cam_from_img points2D (Suc idx)
             (world_points2D @ [cam_from_img (points2D ! idx)])
      else world_points2D)"
  by pat_completeness auto
termination
  by (relation "measure (\<lambda>(f, points2D, idx, acc). length points2D - idx)") auto

text \<open>
  \<^verbatim>\<open>for (size_t idx = 0; idx < inlier_mask.size(); ++idx)
    if (inlier_mask[idx]) {
      inlier_world_points2D1.push_back(world_points2D1[idx]);
      inlier_world_points2D2.push_back(world_points2D2[idx]);
    }\<close>
  The index runs over the mask, and the two point vectors are read with it: where the
  mask has a set entry past the end of a point vector, the read is out of bounds.
\<close>

function inlier_world_points ::
  "8 word list \<Rightarrow> 'p list \<Rightarrow> 'p list \<Rightarrow> nat \<Rightarrow> 'p list \<Rightarrow> 'p list
    \<Rightarrow> ('p list \<times> 'p list) option" where
  "inlier_world_points msk world_points2D1 world_points2D2 idx inl1 inl2 =
     (if idx < length msk
      then (if msk ! idx \<noteq> 0
            then (if idx < length world_points2D1 \<and> idx < length world_points2D2
                  then inlier_world_points msk world_points2D1 world_points2D2 (Suc idx)
                         (inl1 @ [world_points2D1 ! idx]) (inl2 @ [world_points2D2 ! idx])
                  else None)
            else inlier_world_points msk world_points2D1 world_points2D2 (Suc idx) inl1 inl2)
      else Some (inl1, inl2))"
  by pat_completeness auto
termination
  by (relation "measure (\<lambda>(msk, w1, w2, idx, a1, a2). length msk - idx)") auto

text \<open>
  \<^verbatim>\<open>for (auto it : inlier_mask)
    if (it) inliers.push_back(true); else inliers.push_back(false);\<close>
\<close>

fun convert_mask :: "8 word list \<Rightarrow> bool list \<Rightarrow> bool list" where
  "convert_mask [] inliers = inliers"
| "convert_mask (it # rest) inliers =
     (if it \<noteq> 0 then convert_mask rest (inliers @ [True])
      else convert_mask rest (inliers @ [False]))"

subsection \<open>\<open>fundamental_matrix_estimation\<close>\<close>

text \<open>
  The failure output dictionary, which both files build before the engine runs
  (\<open>fundamental_matrix.cc\<close>, lines 33 and 34; \<open>essential_matrix.cc\<close>, line 37).
\<close>

definition failure_dict :: "'d pydict" where
  "failure_dict = Map.empty(''success'' \<mapsto> PyBool False)"

text \<open>Lines 23 to 72 of \<open>fundamental_matrix.cc\<close>: the overload with the options struct.\<close>

definition fundamental_matrix_estimation ::
  "('d, 'cam, 'g, 'z) colmap \<Rightarrow> 'd Vector2d list \<Rightarrow> 'd Vector2d list
    \<Rightarrow> ('d, 'z) RANSACOptions_scheme \<Rightarrow> 'g world \<Rightarrow> (error + 'd pydict) \<times> 'g world" where
  "fundamental_matrix_estimation env points2D1 points2D2 options w0 =
     (let w1 = SetPRNGSeed env 0 w0 in
      case THROW_CHECK_EQ (length points2D1) (length points2D2) of
        Inl e \<Rightarrow> (Inl e, w1)
      | Inr _ \<Rightarrow>
         (let w2 = gil_scoped_release w1;
              (report, g) = LORANSAC_SevenEightPoint_Estimate env options
                              points2D1 points2D2 (PRNG w2);
              w3 = w2\<lparr>PRNG := g\<rparr>
          in if \<not> success report then (Inr failure_dict, gil_scoped_release_exit w3)
             else
               (let F = model report;
                    num_inliers = num_inliers (support report);
                    inlier_mask = inlier_mask report;
                    inliers = convert_mask inlier_mask [];
                    (release, w4) = gil_scoped_acquire w3;
                    success_dict = Map.empty
                      (''success'' \<mapsto> PyBool True,
                       ''F'' \<mapsto> PyMatrix3d F,
                       ''num_inliers'' \<mapsto> PySizeT num_inliers,
                       ''inliers'' \<mapsto> PyBoolList inliers)
                in (Inr success_dict,
                    gil_scoped_release_exit (gil_scoped_acquire_exit release w4)))))"

text \<open>Lines 74 to 89: the overload with five scalars.\<close>

definition fundamental_matrix_estimation_scalars ::
  "('d, 'cam, 'g, 'z) colmap \<Rightarrow> 'd Vector2d list \<Rightarrow> 'd Vector2d list
    \<Rightarrow> 'd \<Rightarrow> 'd \<Rightarrow> int \<Rightarrow> int \<Rightarrow> 'd \<Rightarrow> 'g world \<Rightarrow> (error + 'd pydict) \<times> 'g world" where
  "fundamental_matrix_estimation_scalars env points2D1 points2D2
       max_error_px min_inlier_ratio' min_num_trials' max_num_trials' confidence' w0 =
     (let ransac_options = RANSACOptions_default env;
          ransac_options = ransac_options\<lparr>max_error := max_error_px\<rparr>;
          ransac_options = ransac_options\<lparr>min_inlier_ratio := min_inlier_ratio'\<rparr>;
          ransac_options = ransac_options\<lparr>min_num_trials := min_num_trials'\<rparr>;
          ransac_options = ransac_options\<lparr>max_num_trials := max_num_trials'\<rparr>;
          ransac_options = ransac_options\<lparr>confidence := confidence'\<rparr>
      in fundamental_matrix_estimation env points2D1 points2D2 ransac_options w0)"

subsection \<open>\<open>essential_matrix_estimation\<close>\<close>

text \<open>
  Lines 64 to 112 of \<open>essential_matrix.cc\<close>: what the function does with the engine's
  report. \<open>w3\<close> is the state after the engine has run. Where the source reads past
  the end of a vector, the model stops with \<open>OutOfBounds\<close> and says nothing more.
\<close>

definition essential_matrix_result ::
  "('d, 'cam, 'g, 'z) colmap \<Rightarrow> 'd Vector2d list \<Rightarrow> 'd Vector2d list
    \<Rightarrow> 'd Report \<Rightarrow> 'g world \<Rightarrow> (error + 'd pydict) \<times> 'g world" where
  "essential_matrix_result env world_points2D1 world_points2D2 report w3 =
     (if \<not> success report then (Inr failure_dict, gil_scoped_release_exit w3)
      else
           (let E = model report;
                num_inliers = num_inliers (support report);
                inlier_mask = inlier_mask report
            in case inlier_world_points inlier_mask world_points2D1 world_points2D2 0 [] [] of
                 None \<Rightarrow> (Inl OutOfBounds, w3)
               | Some (inlier_world_points2D1, inlier_world_points2D2) \<Rightarrow>
                  (let (cam2_from_cam1_rot_mat, t, points3D) =
                         PoseFromEssentialMatrix env E
                           inlier_world_points2D1 inlier_world_points2D2;
                       cam2_from_cam1 =
                         \<lparr>rotation = Quaterniond env cam2_from_cam1_rot_mat, translation = t\<rparr>;
                       inliers = convert_mask inlier_mask [];
                       (release, w4) = gil_scoped_acquire w3;
                       success_dict = Map.empty
                         (''success'' \<mapsto> PyBool True,
                          ''E'' \<mapsto> PyMatrix3d E,
                          ''cam2_from_cam1'' \<mapsto> PyRigid3d cam2_from_cam1,
                          ''num_inliers'' \<mapsto> PySizeT num_inliers,
                          ''inliers'' \<mapsto> PyBoolList inliers)
                   in (Inr success_dict,
                       gil_scoped_release_exit (gil_scoped_acquire_exit release w4)))))"

text \<open>Lines 25 to 113: the overload with the options struct.\<close>

definition essential_matrix_estimation ::
  "('d::{plus,times,inverse,numeral}, 'cam, 'g, 'z) colmap
    \<Rightarrow> 'd Vector2d list \<Rightarrow> 'd Vector2d list \<Rightarrow> 'cam \<Rightarrow> 'cam
    \<Rightarrow> ('d, 'z) RANSACOptions_scheme \<Rightarrow> 'g world \<Rightarrow> (error + 'd pydict) \<times> 'g world" where
  "essential_matrix_estimation env points2D1 points2D2 camera1 camera2 options w0 =
     (let w1 = SetPRNGSeed env 0 w0 in
      case THROW_CHECK_EQ (length points2D1) (length points2D2) of
        Inl e \<Rightarrow> (Inl e, w1)
      | Inr _ \<Rightarrow>
         (let w2 = gil_scoped_release w1;
              world_points2D1 = image_to_world (CamFromImg env camera1) points2D1 0 [];
              world_points2D2 = image_to_world (CamFromImg env camera2) points2D2 0 [];
              max_error_px = max_error options;
              max_error' = 0.5 * (max_error_px / MeanFocalLength env camera1 +
                                  max_error_px / MeanFocalLength env camera2);
              ransac_options = options;
              ransac_options = ransac_options\<lparr>max_error := max_error'\<rparr>;
              (report, g) = LORANSAC_FivePoint_Estimate env ransac_options
                              world_points2D1 world_points2D2 (PRNG w2);
              w3 = w2\<lparr>PRNG := g\<rparr>
          in essential_matrix_result env world_points2D1 world_points2D2 report w3))"

text \<open>Lines 115 to 133: the overload with five scalars.\<close>

definition essential_matrix_estimation_scalars ::
  "('d::{plus,times,inverse,numeral}, 'cam, 'g, 'z) colmap
    \<Rightarrow> 'd Vector2d list \<Rightarrow> 'd Vector2d list \<Rightarrow> 'cam \<Rightarrow> 'cam
    \<Rightarrow> 'd \<Rightarrow> 'd \<Rightarrow> int \<Rightarrow> int \<Rightarrow> 'd \<Rightarrow> 'g world \<Rightarrow> (error + 'd pydict) \<times> 'g world" where
  "essential_matrix_estimation_scalars env points2D1 points2D2 camera1 camera2
       max_error_px min_inlier_ratio' min_num_trials' max_num_trials' confidence' w0 =
     (let ransac_options = RANSACOptions_default env;
          ransac_options = ransac_options\<lparr>max_error := max_error_px\<rparr>;
          ransac_options = ransac_options\<lparr>min_inlier_ratio := min_inlier_ratio'\<rparr>;
          ransac_options = ransac_options\<lparr>min_num_trials := min_num_trials'\<rparr>;
          ransac_options = ransac_options\<lparr>max_num_trials := max_num_trials'\<rparr>;
          ransac_options = ransac_options\<lparr>confidence := confidence'\<rparr>
      in essential_matrix_estimation env points2D1 points2D2 camera1 camera2
           ransac_options w0)"

declare image_to_world.simps [simp del]
declare inlier_world_points.simps [simp del]

subsection \<open>Notions used to state the properties\<close>

text \<open>The points of a vector at the positions where the mask is set, in order.\<close>

definition marked_inliers :: "8 word list \<Rightarrow> 'p list \<Rightarrow> 'p list" where
  "marked_inliers msk points = map snd (filter (\<lambda>(it, p). it \<noteq> 0) (zip msk points))"

text \<open>
  The error threshold in normalized coordinates and the engine's run on the essential
  path, in the spec's words (section 4.5): every pixel is mapped through its camera, and
  the threshold is half the sum of \<open>maxErrorPixels / meanFocalLength\<close> over the cameras.
\<close>

definition normalized_max_error ::
  "('d::{plus,times,inverse,numeral}, 'cam, 'g, 'z) colmap \<Rightarrow> 'cam \<Rightarrow> 'cam \<Rightarrow> 'd \<Rightarrow> 'd" where
  "normalized_max_error env camera1 camera2 max_error_px =
     0.5 * (max_error_px / MeanFocalLength env camera1 +
            max_error_px / MeanFocalLength env camera2)"

definition essential_ransac ::
  "('d::{plus,times,inverse,numeral}, 'cam, 'g, 'z) colmap
    \<Rightarrow> 'd Vector2d list \<Rightarrow> 'd Vector2d list \<Rightarrow> 'cam \<Rightarrow> 'cam
    \<Rightarrow> ('d, 'z) RANSACOptions_scheme \<Rightarrow> 'd Report \<times> 'g" where
  "essential_ransac env points2D1 points2D2 camera1 camera2 options =
     LORANSAC_FivePoint_Estimate env
       (options\<lparr>max_error := normalized_max_error env camera1 camera2 (max_error options)\<rparr>)
       (map (CamFromImg env camera1) points2D1)
       (map (CamFromImg env camera2) points2D2)
       (mt19937 env 0)"

definition fundamental_ransac ::
  "('d, 'cam, 'g, 'z) colmap \<Rightarrow> 'd Vector2d list \<Rightarrow> 'd Vector2d list
    \<Rightarrow> ('d, 'z) RANSACOptions_scheme \<Rightarrow> 'd Report \<times> 'g" where
  "fundamental_ransac env points2D1 points2D2 options =
     LORANSAC_SevenEightPoint_Estimate env options points2D1 points2D2 (mt19937 env 0)"



text \<open>The keys of a returned report (none when the call raised).\<close>

definition report_keys :: "error + 'd pydict \<Rightarrow> string set" where
  "report_keys r = (case r of Inl e \<Rightarrow> {} | Inr d \<Rightarrow> dom d)"

text \<open>The value that a returned report holds under a key (none when the call raised).\<close>

definition report_field :: "error + 'd pydict \<Rightarrow> string \<Rightarrow> 'd pyval option" where
  "report_field r key = (case r of Inl e \<Rightarrow> None | Inr d \<Rightarrow> d key)"

text \<open>
  Pose recovery with its triangulated points replaced by \<open>points3D\<close>, the rotation and
  the translation kept.
\<close>

definition with_points3D ::
  "('d, 'cam, 'g, 'z) colmap
    \<Rightarrow> ('d Matrix3d \<Rightarrow> 'd Vector2d list \<Rightarrow> 'd Vector2d list \<Rightarrow> 'd Vector3d list)
    \<Rightarrow> ('d, 'cam, 'g, 'z) colmap" where
  "with_points3D env points3D =
     env\<lparr>PoseFromEssentialMatrix := \<lambda>E x1 x2.
            (fst (PoseFromEssentialMatrix env E x1 x2),
             fst (snd (PoseFromEssentialMatrix env E x1 x2)),
             points3D E x1 x2)\<rparr>"

definition no_points3D ::
  "'d Matrix3d \<Rightarrow> 'd Vector2d list \<Rightarrow> 'd Vector2d list \<Rightarrow> 'd Vector3d list" where
  "no_points3D E x1 x2 = []"

subsection \<open>A small instance of the library, for the closed instances of the theorems\<close>

text \<open>
  Doubles are reals, a camera is its focal length (a pixel is divided by it), and the
  generator state is a counter. The engine stands for one that has found the model of a
  sideways translation, whose epipolar lines are horizontal: it fails on fewer than
  \<open>k\<close> correspondences, and otherwise marks a correspondence an inlier when the heights
  of its two points differ by at most \<open>max_error\<close>, and advances the generator.
\<close>

definition sideways_E :: "real Matrix3d" where
  "sideways_E = ((0, 0, 0), (0, 0, -1), (0, 1, 0))"

definition identity_R :: "real Matrix3d" where
  "identity_R = ((1, 0, 0), (0, 1, 0), (0, 0, 1))"

definition sideways_mask :: "real \<Rightarrow> real Vector2d list \<Rightarrow> real Vector2d list \<Rightarrow> 8 word list" where
  "sideways_mask thr X Y =
     map (\<lambda>(x, y). if \<bar>snd x - snd y\<bar> \<le> thr then 1 else 0) (zip X Y)"

definition sideways_engine ::
  "nat \<Rightarrow> (real, unit) RANSACOptions_scheme \<Rightarrow> real Vector2d list \<Rightarrow> real Vector2d list
    \<Rightarrow> nat \<Rightarrow> real Report \<times> nat" where
  "sideways_engine k options X Y g =
     (if length X < k
      then (\<lparr>success = False, support = \<lparr>num_inliers = 0\<rparr>, inlier_mask = [],
             model = sideways_E\<rparr>, g)
      else (\<lparr>success = True,
              support = \<lparr>num_inliers =
                length (filter (\<lambda>it. it \<noteq> 0) (sideways_mask (max_error options) X Y))\<rparr>,
              inlier_mask = sideways_mask (max_error options) X Y,
              model = sideways_E\<rparr>, Suc g))"

definition default_options :: "real RANSACOptions" where
  "default_options =
     \<lparr>max_error = 4, min_inlier_ratio = 0.25, min_num_trials = 100,
      max_num_trials = 10000, confidence = 0.9999\<rparr>"

definition small_colmap :: "(real, real, nat, unit) colmap" where
  "small_colmap =
     \<lparr>mt19937 = (\<lambda>seed. seed),
      CamFromImg = (\<lambda>f (x, y). (x / f, y / f)),
      MeanFocalLength = (\<lambda>f. f),
      LORANSAC_FivePoint_Estimate = sideways_engine 5,
      LORANSAC_SevenEightPoint_Estimate = sideways_engine 7,
      PoseFromEssentialMatrix = (\<lambda>E x1 x2. (identity_R, (1, 0, 0), map (\<lambda>(x, y). (x, y, 1)) x1)),
      Quaterniond = (\<lambda>R. (1, 0, 0, 0)),
      RANSACOptions_default = default_options\<rparr>"

text \<open>Five and seven correspondences; the last of each is off its epipolar line.\<close>

definition five_points1 :: "real Vector2d list" where
  "five_points1 = [(0, 0), (2, 2), (4, 0), (6, 2), (8, 8)]"

definition five_points2 :: "real Vector2d list" where
  "five_points2 = [(2, 0), (4, 2), (6, 0), (8, 2), (0, 20)]"

definition seven_points1 :: "real Vector2d list" where
  "seven_points1 = [(0, 0), (2, 2), (4, 0), (6, 2), (1, 1), (3, 3), (8, 8)]"

definition seven_points2 :: "real Vector2d list" where
  "seven_points2 = [(2, 0), (4, 2), (6, 0), (8, 2), (5, 1), (7, 3), (0, 20)]"

definition busy_world :: "nat world" where
  "busy_world = \<lparr>PRNG = 41, gil_held = True\<rparr>"

subsection \<open>An instance whose options struct has a further field\<close>

text \<open>
  The options struct is declared in the library, and the sources only show the five fields
  that the scalar overloads assign. In this instance the struct has one field more, a
  multiplier of the number of trials with the default 3, and the engine runs no trial and
  so reports failure when the multiplier is not positive; otherwise the instance is the
  small one above.
\<close>

record 'd RANSACOptions_with_multiplier = "'d RANSACOptions" +
  dyn_num_trials_multiplier :: 'd

definition default_options_with_multiplier :: "real RANSACOptions_with_multiplier" where
  "default_options_with_multiplier =
     \<lparr>max_error = 4, min_inlier_ratio = 0.25, min_num_trials = 100,
      max_num_trials = 10000, confidence = 0.9999, dyn_num_trials_multiplier = 3\<rparr>"

definition no_trials_options :: "real RANSACOptions_with_multiplier" where
  "no_trials_options = default_options_with_multiplier\<lparr>dyn_num_trials_multiplier := 0\<rparr>"

definition multiplier_engine ::
  "nat \<Rightarrow> real RANSACOptions_with_multiplier \<Rightarrow> real Vector2d list \<Rightarrow> real Vector2d list
    \<Rightarrow> nat \<Rightarrow> real Report \<times> nat" where
  "multiplier_engine k options X Y g =
     (if length X < k \<or> dyn_num_trials_multiplier options \<le> 0
      then (\<lparr>success = False, support = \<lparr>num_inliers = 0\<rparr>, inlier_mask = [],
             model = sideways_E\<rparr>, g)
      else (\<lparr>success = True,
              support = \<lparr>num_inliers =
                length (filter (\<lambda>it. it \<noteq> 0) (sideways_mask (max_error options) X Y))\<rparr>,
              inlier_mask = sideways_mask (max_error options) X Y,
              model = sideways_E\<rparr>, Suc g))"

definition multiplier_colmap ::
  "(real, real, nat, (real, unit) RANSACOptions_with_multiplier_ext) colmap" where
  "multiplier_colmap =
     \<lparr>mt19937 = (\<lambda>seed. seed),
      CamFromImg = (\<lambda>f (x, y). (x / f, y / f)),
      MeanFocalLength = (\<lambda>f. f),
      LORANSAC_FivePoint_Estimate = multiplier_engine 5,
      LORANSAC_SevenEightPoint_Estimate = multiplier_engine 7,
      PoseFromEssentialMatrix = (\<lambda>E x1 x2. (identity_R, (1, 0, 0), map (\<lambda>(x, y). (x, y, 1)) x1)),
      Quaterniond = (\<lambda>R. (1, 0, 0, 0)),
      RANSACOptions_default = default_options_with_multiplier\<rparr>"

section \<open>Properties\<close>

subsection \<open>The loops compute maps and filters\<close>

lemma image_to_world_acc:
  "image_to_world f ps idx acc = acc @ map f (drop idx ps)"
proof (induction f ps idx acc rule: image_to_world.induct)
  case (1 f ps idx acc)
  show ?case
  proof (cases "idx < length ps")
    case True
    then have "drop idx ps = ps ! idx # drop (Suc idx) ps"
      by (simp add: Cons_nth_drop_Suc)
    with True "1.IH" show ?thesis
      by (subst image_to_world.simps) simp
  next
    case False
    then show ?thesis by (subst image_to_world.simps) simp
  qed
qed

lemma image_to_world_map: "image_to_world f ps 0 [] = map f ps"
  by (simp add: image_to_world_acc)

lemma convert_mask_acc: "convert_mask cs acc = acc @ map (\<lambda>it. it \<noteq> 0) cs"
  by (induction cs arbitrary: acc) simp_all

lemma convert_mask_map: "convert_mask cs [] = map (\<lambda>it. it \<noteq> 0) cs"
  by (simp add: convert_mask_acc)


lemma inlier_world_points_acc:
  assumes "length msk \<le> length w1" and "length msk \<le> length w2"
  shows "inlier_world_points msk w1 w2 idx a1 a2 =
    Some (a1 @ marked_inliers (drop idx msk) (drop idx w1),
          a2 @ marked_inliers (drop idx msk) (drop idx w2))"
  using assms
proof (induction msk w1 w2 idx a1 a2 rule: inlier_world_points.induct)
  case (1 msk w1 w2 idx a1 a2)
  show ?case
  proof (cases "idx < length msk")
    case True
    then have d: "drop idx msk = msk ! idx # drop (Suc idx) msk"
      "drop idx w1 = w1 ! idx # drop (Suc idx) w1"
      "drop idx w2 = w2 ! idx # drop (Suc idx) w2"
      using "1.prems" by (simp_all add: Cons_nth_drop_Suc)
    from True "1.prems" have r: "idx < length w1" "idx < length w2" by simp_all
    show ?thesis
    proof (cases "msk ! idx \<noteq> 0")
      case True
      with \<open>idx < length msk\<close> r "1.IH"(1) "1.prems" d show ?thesis
        by (subst inlier_world_points.simps) (simp add: marked_inliers_def)
    next
      case False
      with \<open>idx < length msk\<close> "1.IH"(2) "1.prems" d show ?thesis
        by (subst inlier_world_points.simps) (simp add: marked_inliers_def)
    qed
  next
    case False
    then show ?thesis by (subst inlier_world_points.simps) (simp add: marked_inliers_def)
  qed
qed

lemma inlier_world_points_marked:
  "length msk \<le> length w1 \<Longrightarrow> length msk \<le> length w2 \<Longrightarrow>
   inlier_world_points msk w1 w2 0 [] [] = Some (marked_inliers msk w1, marked_inliers msk w2)"
  by (simp add: inlier_world_points_acc)

subsection \<open>The two functions, unfolded\<close>

lemma THROW_CHECK_EQ_simps [simp]:
  "THROW_CHECK_EQ n n = Inr ()"
  "n \<noteq> m \<Longrightarrow> THROW_CHECK_EQ n m = Inl PreconditionViolation"
  by (simp_all add: THROW_CHECK_EQ_def)

lemma fundamental_mismatch:
  "length p1 \<noteq> length p2 \<Longrightarrow>
   fundamental_matrix_estimation env p1 p2 options w = (Inl PreconditionViolation, SetPRNGSeed env 0 w)"
  by (simp add: fundamental_matrix_estimation_def)

lemma essential_mismatch:
  "length p1 \<noteq> length p2 \<Longrightarrow>
   essential_matrix_estimation env p1 p2 c1 c2 options w = (Inl PreconditionViolation, SetPRNGSeed env 0 w)"
  by (simp add: essential_matrix_estimation_def)

lemma fundamental_unfold:
  assumes "length p1 = length p2"
  shows "fundamental_matrix_estimation env p1 p2 options w =
    (if \<not> success (fst (fundamental_ransac env p1 p2 options))
     then (Inr failure_dict, w\<lparr>PRNG := snd (fundamental_ransac env p1 p2 options)\<rparr>\<lparr>gil_held := True\<rparr>)
     else (Inr (Map.empty
            (''success'' \<mapsto> PyBool True,
             ''F'' \<mapsto> PyMatrix3d (model (fst (fundamental_ransac env p1 p2 options))),
             ''num_inliers'' \<mapsto> PySizeT (num_inliers (support (fst (fundamental_ransac env p1 p2 options)))),
             ''inliers'' \<mapsto> PyBoolList (map (\<lambda>it. it \<noteq> 0)
                 (inlier_mask (fst (fundamental_ransac env p1 p2 options)))))),
           w\<lparr>PRNG := snd (fundamental_ransac env p1 p2 options)\<rparr>\<lparr>gil_held := True\<rparr>))"
  using assms
  by (simp add: fundamental_matrix_estimation_def fundamental_ransac_def SetPRNGSeed_def
      gil_scoped_release_def gil_scoped_release_exit_def gil_scoped_acquire_def
      gil_scoped_acquire_exit_def convert_mask_map Let_def split_beta)

lemma essential_unfold:
  assumes "length p1 = length p2"
  shows "essential_matrix_estimation env p1 p2 c1 c2 options w =
    essential_matrix_result env (map (CamFromImg env c1) p1) (map (CamFromImg env c2) p2)
      (fst (essential_ransac env p1 p2 c1 c2 options))
      (w\<lparr>gil_held := False, PRNG := snd (essential_ransac env p1 p2 c1 c2 options)\<rparr>)"
  using assms
  by (simp add: essential_matrix_estimation_def essential_ransac_def normalized_max_error_def
      SetPRNGSeed_def gil_scoped_release_def image_to_world_map Let_def split_beta)

lemma essential_result_failure:
  "\<not> success report \<Longrightarrow>
   essential_matrix_result env X Y report w = (Inr failure_dict, w\<lparr>gil_held := True\<rparr>)"
  by (simp add: essential_matrix_result_def gil_scoped_release_exit_def)

lemma essential_result_success:
  assumes "success report" and "length (inlier_mask report) \<le> length X"
    and "length (inlier_mask report) \<le> length Y"
  shows "essential_matrix_result env X Y report w =
    (Inr (Map.empty
       (''success'' \<mapsto> PyBool True,
        ''E'' \<mapsto> PyMatrix3d (model report),
        ''cam2_from_cam1'' \<mapsto> PyRigid3d
           \<lparr>rotation = Quaterniond env (fst (PoseFromEssentialMatrix env (model report)
                 (marked_inliers (inlier_mask report) X) (marked_inliers (inlier_mask report) Y))),
            translation = fst (snd (PoseFromEssentialMatrix env (model report)
                 (marked_inliers (inlier_mask report) X) (marked_inliers (inlier_mask report) Y)))\<rparr>,
        ''num_inliers'' \<mapsto> PySizeT (num_inliers (support report)),
        ''inliers'' \<mapsto> PyBoolList (map (\<lambda>it. it \<noteq> 0) (inlier_mask report)))),
     w\<lparr>gil_held := True\<rparr>)"
  using assms
  by (simp add: essential_matrix_result_def inlier_world_points_marked convert_mask_map
      gil_scoped_release_exit_def gil_scoped_acquire_def gil_scoped_acquire_exit_def
      Let_def split_beta)


lemma scalars_essential:
  "essential_matrix_estimation_scalars env p1 p2 c1 c2 e r a b c w =
   essential_matrix_estimation env p1 p2 c1 c2
     ((RANSACOptions_default env)\<lparr>max_error := e, min_inlier_ratio := r, min_num_trials := a,
        max_num_trials := b, confidence := c\<rparr>) w"
  by (simp add: essential_matrix_estimation_scalars_def)

lemma scalars_fundamental:
  "fundamental_matrix_estimation_scalars env p1 p2 e r a b c w =
   fundamental_matrix_estimation env p1 p2
     ((RANSACOptions_default env)\<lparr>max_error := e, min_inlier_ratio := r, min_num_trials := a,
        max_num_trials := b, confidence := c\<rparr>) w"
  by (simp add: fundamental_matrix_estimation_scalars_def)

subsection \<open>Mismatched lengths\<close>

text \<open>
  C1, as stated, fails: the violation is not signaled before anything else is done. Both
  functions seed the generator with 0 first and compare the lengths second, so a call
  that is rejected has already replaced the generator state: here it goes from 41 to 0.
\<close>

theorem rejected_call_has_reseeded:
  "PRNG busy_world = 41
   \<and> fundamental_matrix_estimation small_colmap five_points1 seven_points2 default_options
        busy_world = (Inl PreconditionViolation, \<lparr>PRNG = 0, gil_held = True\<rparr>)
   \<and> essential_matrix_estimation small_colmap five_points1 seven_points2 2 2 default_options
        busy_world = (Inl PreconditionViolation, \<lparr>PRNG = 0, gil_held = True\<rparr>)
   \<and> snd (fundamental_matrix_estimation small_colmap five_points1 seven_points2
        default_options busy_world) \<noteq> busy_world
   \<and> snd (essential_matrix_estimation small_colmap five_points1 seven_points2 2 2
        default_options busy_world) \<noteq> busy_world"
proof -
  have h: "length five_points1 \<noteq> length seven_points2"
    by (simp add: five_points1_def seven_points2_def)
  have s: "SetPRNGSeed small_colmap 0 busy_world = \<lparr>PRNG = 0, gil_held = True\<rparr>"
    by (simp add: SetPRNGSeed_def small_colmap_def busy_world_def)
  show ?thesis
    by (simp add: fundamental_mismatch [OF h] essential_mismatch [OF h] s)
      (simp add: busy_world_def)
qed

text \<open>
  C1, amended. In each of the four call shapes (either operation, with the options struct
  or with the five scalars), a call with correspondence lists of different lengths seeds
  the generator with 0 and then raises the precondition violation, and does nothing
  else: whatever the library is, the engine, the camera model and pose recovery have no
  part in the outcome, nothing is drawn from the generator, and no report is returned.
\<close>


theorem length_mismatch_is_rejected:
  assumes "length points2D1 \<noteq> length points2D2"
  shows "essential_matrix_estimation env points2D1 points2D2 camera1 camera2 options w =
           (Inl PreconditionViolation, SetPRNGSeed env 0 w)
       \<and> essential_matrix_estimation_scalars env points2D1 points2D2 camera1 camera2
           e r a b c w = (Inl PreconditionViolation, SetPRNGSeed env 0 w)
       \<and> fundamental_matrix_estimation env points2D1 points2D2 options w =
           (Inl PreconditionViolation, SetPRNGSeed env 0 w)
       \<and> fundamental_matrix_estimation_scalars env points2D1 points2D2
           e r a b c w = (Inl PreconditionViolation, SetPRNGSeed env 0 w)"
  using assms
  by (simp add: essential_mismatch fundamental_mismatch scalars_essential scalars_fundamental)

theorem length_mismatch_is_rejected_witness:
  "length five_points1 \<noteq> length seven_points2
   \<and> essential_matrix_estimation small_colmap five_points1 seven_points2 2 2 default_options
       busy_world = (Inl PreconditionViolation, \<lparr>PRNG = 0, gil_held = True\<rparr>)
   \<and> essential_matrix_estimation_scalars small_colmap five_points1 seven_points2 2 2
       4 0.25 100 10000 0.9999 busy_world = (Inl PreconditionViolation, \<lparr>PRNG = 0, gil_held = True\<rparr>)
   \<and> fundamental_matrix_estimation small_colmap five_points1 seven_points2 default_options
       busy_world = (Inl PreconditionViolation, \<lparr>PRNG = 0, gil_held = True\<rparr>)
   \<and> fundamental_matrix_estimation_scalars small_colmap five_points1 seven_points2
       4 0.25 100 10000 0.9999 busy_world = (Inl PreconditionViolation, \<lparr>PRNG = 0, gil_held = True\<rparr>)"
proof -
  have h: "length five_points1 \<noteq> length seven_points2"
    by (simp add: five_points1_def seven_points2_def)
  have s: "SetPRNGSeed small_colmap 0 busy_world = \<lparr>PRNG = 0, gil_held = True\<rparr>"
    by (simp add: SetPRNGSeed_def small_colmap_def busy_world_def)
  show ?thesis
    using h length_mismatch_is_rejected [OF h, of small_colmap 2 2 default_options busy_world
        4 "0.25" 100 10000 "0.9999"]
    by (simp add: s)
qed

subsection \<open>The small instance, evaluated\<close>

lemma small_ransac5:
  "essential_ransac small_colmap five_points1 five_points2 2 2 default_options =
    (\<lparr>success = True, support = \<lparr>num_inliers = 4\<rparr>, inlier_mask = [1, 1, 1, 1, 0],
      model = sideways_E\<rparr>, 1)"
  by (simp add: essential_ransac_def normalized_max_error_def small_colmap_def
      sideways_engine_def sideways_mask_def five_points1_def five_points2_def default_options_def)



lemma small_ransac_empty:
  "fundamental_ransac small_colmap [] [] default_options =
    (\<lparr>success = False, support = \<lparr>num_inliers = 0\<rparr>, inlier_mask = [],
      model = sideways_E\<rparr>, 0)"
  "essential_ransac small_colmap [] [] 2 2 default_options =
    (\<lparr>success = False, support = \<lparr>num_inliers = 0\<rparr>, inlier_mask = [],
      model = sideways_E\<rparr>, 0)"
  by (simp_all add: fundamental_ransac_def essential_ransac_def small_colmap_def
      sideways_engine_def)

subsection \<open>The invariant of the report\<close>





subsection \<open>The failure report\<close>

text \<open>
  C3. When the lengths agree and the engine's report is not a success, either operation
  returns the failure dictionary, whose only key is \<open>success\<close>, with the value false:
  no model, no inlier count and no mask is in it.
\<close>

theorem failure_report_is_success_false_only:
  fixes env :: "('d::{plus,times,inverse,numeral}, 'cam, 'g, 'z) colmap"
  assumes "length points2D1 = length points2D2"
  shows "(fundamental_ransac env points2D1 points2D2 options = (report, g) \<longrightarrow>
            \<not> success report \<longrightarrow>
            fst (fundamental_matrix_estimation env points2D1 points2D2 options w) =
              Inr failure_dict)
       \<and> (essential_ransac env points2D1 points2D2 camera1 camera2 options = (report', g') \<longrightarrow>
            \<not> success report' \<longrightarrow>
            fst (essential_matrix_estimation env points2D1 points2D2 camera1 camera2 options w) =
              Inr failure_dict)
       \<and> dom (failure_dict :: 'd pydict) = {''success''}
       \<and> (failure_dict :: 'd pydict) ''success'' = Some (PyBool False)"
  using assms
  by (simp add: fundamental_unfold essential_unfold essential_result_failure failure_dict_def)

theorem failure_report_is_success_false_only_witness:
  "length ([] :: real Vector2d list) = length ([] :: real Vector2d list)
   \<and> fundamental_ransac small_colmap [] [] default_options =
        (\<lparr>success = False, support = \<lparr>num_inliers = 0\<rparr>, inlier_mask = [],
          model = sideways_E\<rparr>, 0)
   \<and> fst (fundamental_matrix_estimation small_colmap [] [] default_options busy_world) =
        Inr failure_dict
   \<and> essential_ransac small_colmap [] [] 2 2 default_options =
        (\<lparr>success = False, support = \<lparr>num_inliers = 0\<rparr>, inlier_mask = [],
          model = sideways_E\<rparr>, 0)
   \<and> fst (essential_matrix_estimation small_colmap [] [] 2 2 default_options busy_world) =
        Inr failure_dict
   \<and> dom (failure_dict :: real pydict) = {''success''}"
  using small_ransac_empty
    failure_report_is_success_false_only [of "[]" "[]" small_colmap default_options
      "\<lparr>success = False, support = \<lparr>num_inliers = 0\<rparr>, inlier_mask = [],
          model = sideways_E\<rparr>" 0 busy_world 2 2
      "\<lparr>success = False, support = \<lparr>num_inliers = 0\<rparr>, inlier_mask = [],
          model = sideways_E\<rparr>" 0]
  by simp

subsection \<open>Normalization on the essential path\<close>

text \<open>
  C4. On the essential path, with lists of equal length, the engine is run on the points
  of either list mapped through its camera, with the options' \<open>max_error\<close> replaced by
  \<open>0.5 * (max_error / f1 + max_error / f2)\<close>, \<open>f1\<close> and \<open>f2\<close> the mean focal lengths
  of the two cameras, and on the generator as seeded with 0; what the function returns
  is what lines 64 to 112 make of that run's report and of the normalized points.
\<close>

theorem essential_engine_runs_normalized:
  assumes "length points2D1 = length points2D2"
    and "world_points2D1 = map (CamFromImg env camera1) points2D1"
    and "world_points2D2 = map (CamFromImg env camera2) points2D2"
    and "threshold = 0.5 * (max_error options / MeanFocalLength env camera1 +
                            max_error options / MeanFocalLength env camera2)"
    and "LORANSAC_FivePoint_Estimate env (options\<lparr>max_error := threshold\<rparr>)
           world_points2D1 world_points2D2 (mt19937 env 0) = (report, g)"
  shows "essential_matrix_estimation env points2D1 points2D2 camera1 camera2 options w =
           essential_matrix_result env world_points2D1 world_points2D2 report
             (w\<lparr>gil_held := False, PRNG := g\<rparr>)"
  using assms
  by (simp add: essential_unfold essential_ransac_def normalized_max_error_def)

theorem essential_engine_runs_normalized_witness:
  "length five_points1 = length five_points2
   \<and> map (CamFromImg small_colmap 2) five_points1 = [(0, 0), (1, 1), (2, 0), (3, 1), (4, 4)]
   \<and> map (CamFromImg small_colmap 2) five_points2 = [(1, 0), (2, 1), (3, 0), (4, 1), (0, 10)]
   \<and> (2::real) = 0.5 * (max_error default_options / MeanFocalLength small_colmap 2 +
                        max_error default_options / MeanFocalLength small_colmap 2)
   \<and> LORANSAC_FivePoint_Estimate small_colmap (default_options\<lparr>max_error := 2\<rparr>)
        [(0, 0), (1, 1), (2, 0), (3, 1), (4, 4)] [(1, 0), (2, 1), (3, 0), (4, 1), (0, 10)]
        (mt19937 small_colmap 0) =
       (\<lparr>success = True, support = \<lparr>num_inliers = 4\<rparr>, inlier_mask = [1, 1, 1, 1, 0],
         model = sideways_E\<rparr>, 1)
   \<and> essential_matrix_estimation small_colmap five_points1 five_points2 2 2 default_options
        busy_world =
       essential_matrix_result small_colmap
         [(0, 0), (1, 1), (2, 0), (3, 1), (4, 4)] [(1, 0), (2, 1), (3, 0), (4, 1), (0, 10)]
         \<lparr>success = True, support = \<lparr>num_inliers = 4\<rparr>, inlier_mask = [1, 1, 1, 1, 0],
           model = sideways_E\<rparr>
         (busy_world\<lparr>gil_held := False, PRNG := 1\<rparr>)"
proof -
  have h1: "length five_points1 = length five_points2"
    by (simp add: five_points1_def five_points2_def)
  have h2: "[(0, 0), (1, 1), (2, 0), (3, 1), (4, 4)] = map (CamFromImg small_colmap 2) five_points1"
    by (simp add: small_colmap_def five_points1_def)
  have h3: "[(1, 0), (2, 1), (3, 0), (4, 1), (0, 10)] = map (CamFromImg small_colmap 2) five_points2"
    by (simp add: small_colmap_def five_points2_def)
  have h4: "(2::real) = 0.5 * (max_error default_options / MeanFocalLength small_colmap 2 +
                        max_error default_options / MeanFocalLength small_colmap 2)"
    by (simp add: small_colmap_def default_options_def)
  have h5: "LORANSAC_FivePoint_Estimate small_colmap (default_options\<lparr>max_error := 2\<rparr>)
        [(0, 0), (1, 1), (2, 0), (3, 1), (4, 4)] [(1, 0), (2, 1), (3, 0), (4, 1), (0, 10)]
        (mt19937 small_colmap 0) =
       (\<lparr>success = True, support = \<lparr>num_inliers = 4\<rparr>, inlier_mask = [1, 1, 1, 1, 0],
         model = sideways_E\<rparr>, 1)"
    by (simp add: small_colmap_def sideways_engine_def sideways_mask_def default_options_def)
  from essential_engine_runs_normalized [OF h1 h2 h3 h4 h5, of busy_world] h1 h2 h3 h4 h5
  show ?thesis by simp
qed

subsection \<open>Determinism\<close>




subsection \<open>The success report of the essential path\<close>

text \<open>
  C6. On the essential path, when the lengths agree and the engine's report is a success
  (with a mask no longer than the lists: the engine gives one entry for each
  correspondence), pose recovery is run on the engine's model and on the normalized
  points of either list at the positions where the mask is set, and nothing else; the
  report returned holds \<open>success\<close> (true), the model \<open>E\<close>, the pose
  \<open>cam2_from_cam1\<close> made of the quaternion of the recovered rotation and of the
  recovered translation, the engine's inlier count and the mask as booleans.
\<close>

theorem essential_success_report:
  assumes "length points2D1 = length points2D2"
    and "essential_ransac env points2D1 points2D2 camera1 camera2 options = (report, g)"
    and "success report"
    and "length (inlier_mask report) \<le> length points2D1"
    and "inlier_world_points2D1 =
           marked_inliers (inlier_mask report) (map (CamFromImg env camera1) points2D1)"
    and "inlier_world_points2D2 =
           marked_inliers (inlier_mask report) (map (CamFromImg env camera2) points2D2)"
    and "PoseFromEssentialMatrix env (model report)
           inlier_world_points2D1 inlier_world_points2D2 = (R, t, points3D)"
  shows "fst (essential_matrix_estimation env points2D1 points2D2 camera1 camera2 options w) =
    Inr (Map.empty
       (''success'' \<mapsto> PyBool True,
        ''E'' \<mapsto> PyMatrix3d (model report),
        ''cam2_from_cam1'' \<mapsto> PyRigid3d \<lparr>rotation = Quaterniond env R, translation = t\<rparr>,
        ''num_inliers'' \<mapsto> PySizeT (num_inliers (support report)),
        ''inliers'' \<mapsto> PyBoolList (map (\<lambda>it. it \<noteq> 0) (inlier_mask report))))"
  using assms
  by (simp add: essential_unfold essential_result_success)

theorem essential_success_report_witness:
  "length five_points1 = length five_points2
   \<and> essential_ransac small_colmap five_points1 five_points2 2 2 default_options =
       (\<lparr>success = True, support = \<lparr>num_inliers = 4\<rparr>, inlier_mask = [1, 1, 1, 1, 0],
         model = sideways_E\<rparr>, 1)
   \<and> [(0, 0), (1, 1), (2, 0), (3, 1)] =
       marked_inliers [1, 1, 1, 1, 0] (map (CamFromImg small_colmap 2) five_points1)
   \<and> [(1, 0), (2, 1), (3, 0), (4, 1)] =
       marked_inliers [1, 1, 1, 1, 0] (map (CamFromImg small_colmap 2) five_points2)
   \<and> PoseFromEssentialMatrix small_colmap sideways_E
        [(0, 0), (1, 1), (2, 0), (3, 1)] [(1, 0), (2, 1), (3, 0), (4, 1)] =
       (identity_R, (1, 0, 0), [(0, 0, 1), (1, 1, 1), (2, 0, 1), (3, 1, 1)])
   \<and> fst (essential_matrix_estimation small_colmap five_points1 five_points2 2 2
            default_options busy_world) =
       Inr (Map.empty
         (''success'' \<mapsto> PyBool True,
          ''E'' \<mapsto> PyMatrix3d sideways_E,
          ''cam2_from_cam1'' \<mapsto> PyRigid3d \<lparr>rotation = (1, 0, 0, 0), translation = (1, 0, 0)\<rparr>,
          ''num_inliers'' \<mapsto> PySizeT 4,
          ''inliers'' \<mapsto> PyBoolList [True, True, True, True, False]))"
proof -
  let ?report = "\<lparr>success = True, support = \<lparr>num_inliers = 4\<rparr>,
     inlier_mask = [1, 1, 1, 1, 0 :: 8 word], model = sideways_E\<rparr>"
  have h1: "length five_points1 = length five_points2"
    by (simp add: five_points1_def five_points2_def)
  have h3: "success ?report" by simp
  have h4: "length (inlier_mask ?report) \<le> length five_points1"
    by (simp add: five_points1_def)
  have h5: "[(0, 0), (1, 1), (2, 0), (3, 1)] =
       marked_inliers (inlier_mask ?report) (map (CamFromImg small_colmap 2) five_points1)"
    by (simp add: marked_inliers_def small_colmap_def five_points1_def)
  have h6: "[(1, 0), (2, 1), (3, 0), (4, 1)] =
       marked_inliers (inlier_mask ?report) (map (CamFromImg small_colmap 2) five_points2)"
    by (simp add: marked_inliers_def small_colmap_def five_points2_def)
  have h7: "PoseFromEssentialMatrix small_colmap (model ?report)
        [(0, 0), (1, 1), (2, 0), (3, 1)] [(1, 0), (2, 1), (3, 0), (4, 1)] =
       (identity_R, (1, 0, 0), [(0, 0, 1), (1, 1, 1), (2, 0, 1), (3, 1, 1)])"
    by (simp add: small_colmap_def)
  have q: "Quaterniond small_colmap identity_R = (1, 0, 0, 0)"
    by (simp add: small_colmap_def)
  from essential_success_report [OF h1 small_ransac5 h3 h4 h5 h6 h7, of busy_world]
    h1 small_ransac5 h5 h6 h7
  show ?thesis by (simp add: q)
qed

lemma essential_result_with_points3D:
  "essential_matrix_result (with_points3D env points3D) X Y report w =
   essential_matrix_result env X Y report w"
  by (simp add: essential_matrix_result_def with_points3D_def Let_def split_beta
      cong: option.case_cong)

lemma essential_ransac_with_points3D:
  "essential_ransac (with_points3D env points3D) p1 p2 c1 c2 options =
   essential_ransac env p1 p2 c1 c2 options"
  by (simp add: essential_ransac_def normalized_max_error_def with_points3D_def)

lemma essential_with_points3D:
  "essential_matrix_estimation (with_points3D env points3D) p1 p2 c1 c2 options w =
   essential_matrix_estimation env p1 p2 c1 c2 options w"
proof (cases "length p1 = length p2")
  case True
  have "CamFromImg (with_points3D env points3D) = CamFromImg env"
    by (simp add: with_points3D_def)
  with True show ?thesis
    by (simp add: essential_unfold essential_ransac_with_points3D
        essential_result_with_points3D)
next
  case False
  then show ?thesis
    by (simp add: essential_mismatch SetPRNGSeed_def with_points3D_def)
qed

lemma small_essential_five:
  "fst (essential_matrix_estimation small_colmap five_points1 five_points2 2 2
          default_options busy_world) =
     Inr (Map.empty
       (''success'' \<mapsto> PyBool True,
        ''E'' \<mapsto> PyMatrix3d sideways_E,
        ''cam2_from_cam1'' \<mapsto> PyRigid3d \<lparr>rotation = (1, 0, 0, 0), translation = (1, 0, 0)\<rparr>,
        ''num_inliers'' \<mapsto> PySizeT 4,
        ''inliers'' \<mapsto> PyBoolList [True, True, True, True, False]))"
proof -
  let ?report = "\<lparr>success = True, support = \<lparr>num_inliers = 4\<rparr>,
     inlier_mask = [1, 1, 1, 1, 0 :: 8 word], model = sideways_E\<rparr>"
  have n: "length five_points1 = length five_points2"
    by (simp add: five_points1_def five_points2_def)
  have X: "map (CamFromImg small_colmap 2) five_points1 = [(0, 0), (1, 1), (2, 0), (3, 1), (4, 4)]"
    by (simp add: small_colmap_def five_points1_def)
  have Y: "map (CamFromImg small_colmap 2) five_points2 = [(1, 0), (2, 1), (3, 0), (4, 1), (0, 10)]"
    by (simp add: small_colmap_def five_points2_def)
  have r: "essential_matrix_result small_colmap
      [(0, 0), (1, 1), (2, 0), (3, 1), (4, 4)] [(1, 0), (2, 1), (3, 0), (4, 1), (0, 10)]
      ?report w =
     (Inr (Map.empty
       (''success'' \<mapsto> PyBool True,
        ''E'' \<mapsto> PyMatrix3d sideways_E,
        ''cam2_from_cam1'' \<mapsto> PyRigid3d \<lparr>rotation = (1, 0, 0, 0), translation = (1, 0, 0)\<rparr>,
        ''num_inliers'' \<mapsto> PySizeT 4,
        ''inliers'' \<mapsto> PyBoolList [True, True, True, True, False])),
      w\<lparr>gil_held := True\<rparr>)" for w
    by (subst essential_result_success) (simp_all add: small_colmap_def)
  show ?thesis
    by (simp add: essential_unfold [OF n] small_ransac5 X Y r)
qed

subsection \<open>The triangulated points\<close>

text \<open>
  C7, as stated, fails: the triangulated points that pose recovery produces go into a
  local variable and are not returned. One library instance triangulates a point for each
  of the four inliers, the other produces no point; the two reports are the same, with
  the keys \<open>success\<close>, \<open>E\<close>, \<open>cam2_from_cam1\<close>, \<open>num_inliers\<close> and \<open>inliers\<close>.
\<close>

theorem triangulated_points_not_in_report:
  "snd (snd (PoseFromEssentialMatrix small_colmap sideways_E
       [(0, 0), (1, 1), (2, 0), (3, 1)] [(1, 0), (2, 1), (3, 0), (4, 1)])) =
     [(0, 0, 1), (1, 1, 1), (2, 0, 1), (3, 1, 1)]
   \<and> snd (snd (PoseFromEssentialMatrix (with_points3D small_colmap no_points3D) sideways_E
       [(0, 0), (1, 1), (2, 0), (3, 1)] [(1, 0), (2, 1), (3, 0), (4, 1)])) = []
   \<and> essential_matrix_estimation (with_points3D small_colmap no_points3D)
       five_points1 five_points2 2 2 default_options busy_world =
     essential_matrix_estimation small_colmap
       five_points1 five_points2 2 2 default_options busy_world
   \<and> report_keys (fst (essential_matrix_estimation small_colmap
       five_points1 five_points2 2 2 default_options busy_world)) =
     {''success'', ''E'', ''cam2_from_cam1'', ''num_inliers'', ''inliers''}"
proof -
  have "snd (snd (PoseFromEssentialMatrix small_colmap sideways_E
       [(0, 0), (1, 1), (2, 0), (3, 1)] [(1, 0), (2, 1), (3, 0), (4, 1)])) =
     [(0, 0, 1), (1, 1, 1), (2, 0, 1), (3, 1, 1)]"
    by (simp add: small_colmap_def)
  moreover have "snd (snd (PoseFromEssentialMatrix (with_points3D small_colmap no_points3D)
       sideways_E [(0, 0), (1, 1), (2, 0), (3, 1)] [(1, 0), (2, 1), (3, 0), (4, 1)])) = []"
    by (simp add: with_points3D_def no_points3D_def)
  moreover have "report_keys (fst (essential_matrix_estimation small_colmap
       five_points1 five_points2 2 2 default_options busy_world)) =
     {''success'', ''E'', ''cam2_from_cam1'', ''num_inliers'', ''inliers''}"
    unfolding small_essential_five by (auto simp add: report_keys_def)
  ultimately show ?thesis by (simp add: essential_with_points3D)
qed

text \<open>
  C7, amended. On the essential path the report returned does not depend on the
  triangulated points: it is the same whatever points pose recovery produces. When the
  engine's report is a success, its keys are \<open>success\<close>, \<open>E\<close>, \<open>cam2_from_cam1\<close> (a
  rotation and a translation), \<open>num_inliers\<close> and \<open>inliers\<close>, and no other.
\<close>

theorem essential_report_without_points3D:
  "essential_matrix_estimation (with_points3D env points3D)
     points2D1 points2D2 camera1 camera2 options w =
   essential_matrix_estimation env points2D1 points2D2 camera1 camera2 options w
   \<and> (length points2D1 = length points2D2 \<longrightarrow>
      essential_ransac env points2D1 points2D2 camera1 camera2 options = (report, g) \<longrightarrow>
      success report \<longrightarrow> length (inlier_mask report) \<le> length points2D1 \<longrightarrow>
      report_keys (fst (essential_matrix_estimation env
          points2D1 points2D2 camera1 camera2 options w)) =
        {''success'', ''E'', ''cam2_from_cam1'', ''num_inliers'', ''inliers''})"
  by (auto simp add: essential_with_points3D essential_unfold essential_result_success
      report_keys_def)

theorem essential_report_without_points3D_witness:
  "length five_points1 = length five_points2
   \<and> essential_ransac small_colmap five_points1 five_points2 2 2 default_options =
       (\<lparr>success = True, support = \<lparr>num_inliers = 4\<rparr>, inlier_mask = [1, 1, 1, 1, 0],
         model = sideways_E\<rparr>, 1)
   \<and> length [1, 1, 1, 1, 0 :: 8 word] \<le> length five_points1
   \<and> report_keys (fst (essential_matrix_estimation small_colmap
          five_points1 five_points2 2 2 default_options busy_world)) =
        {''success'', ''E'', ''cam2_from_cam1'', ''num_inliers'', ''inliers''}"
proof -
  have h1: "length five_points1 = length five_points2"
    by (simp add: five_points1_def five_points2_def)
  have h2: "length [1, 1, 1, 1, 0 :: 8 word] \<le> length five_points1"
    by (simp add: five_points1_def)
  from essential_report_without_points3D [of small_colmap no_points3D five_points1 five_points2
      2 2 default_options busy_world
      "\<lparr>success = True, support = \<lparr>num_inliers = 4\<rparr>, inlier_mask = [1, 1, 1, 1, 0],
         model = sideways_E\<rparr>" 1] h1 h2 small_ransac5
  show ?thesis by simp
qed

subsection \<open>Assembling the options from the scalars\<close>

lemma assemble_options:
  fixes options dflt :: "('d, 'z) RANSACOptions_scheme"
  assumes "max_error options = e" and "min_inlier_ratio options = r"
    and "min_num_trials options = a" and "max_num_trials options = b"
    and "confidence options = c"
    and "RANSACOptions.more options = RANSACOptions.more dflt"
  shows "dflt\<lparr>max_error := e, min_inlier_ratio := r, min_num_trials := a,
           max_num_trials := b, confidence := c\<rparr> = options"
  using assms by (cases options, cases dflt) simp

subsection \<open>The instance with a further field, evaluated\<close>

lemma multiplier_fundamental_default:
  "fundamental_ransac multiplier_colmap seven_points1 seven_points2
     default_options_with_multiplier =
    (\<lparr>success = True, support = \<lparr>num_inliers = 6\<rparr>, inlier_mask = [1, 1, 1, 1, 1, 1, 0],
      model = sideways_E\<rparr>, 1)"
  by (simp add: fundamental_ransac_def multiplier_colmap_def multiplier_engine_def
      sideways_mask_def seven_points1_def seven_points2_def default_options_with_multiplier_def)

lemma multiplier_essential_default:
  "essential_ransac multiplier_colmap seven_points1 seven_points2 2 2
     default_options_with_multiplier =
    (\<lparr>success = True, support = \<lparr>num_inliers = 6\<rparr>, inlier_mask = [1, 1, 1, 1, 1, 1, 0],
      model = sideways_E\<rparr>, 1)"
  by (simp add: essential_ransac_def normalized_max_error_def multiplier_colmap_def
      multiplier_engine_def sideways_mask_def seven_points1_def seven_points2_def
      default_options_with_multiplier_def)

lemma multiplier_no_trials:
  "fundamental_ransac multiplier_colmap seven_points1 seven_points2 no_trials_options =
    (\<lparr>success = False, support = \<lparr>num_inliers = 0\<rparr>, inlier_mask = [],
      model = sideways_E\<rparr>, 0)"
  "essential_ransac multiplier_colmap seven_points1 seven_points2 2 2 no_trials_options =
    (\<lparr>success = False, support = \<lparr>num_inliers = 0\<rparr>, inlier_mask = [],
      model = sideways_E\<rparr>, 0)"
  by (simp_all add: fundamental_ransac_def essential_ransac_def multiplier_colmap_def
      multiplier_engine_def no_trials_options_def default_options_with_multiplier_def)

lemma multiplier_scalars:
  "fundamental_matrix_estimation_scalars multiplier_colmap p1 p2 4 0.25 100 10000 0.9999 w =
   fundamental_matrix_estimation multiplier_colmap p1 p2 default_options_with_multiplier w"
  "essential_matrix_estimation_scalars multiplier_colmap p1 p2 c1 c2 4 0.25 100 10000 0.9999 w =
   essential_matrix_estimation multiplier_colmap p1 p2 c1 c2 default_options_with_multiplier w"
proof -
  have "(RANSACOptions_default multiplier_colmap)\<lparr>max_error := 4, min_inlier_ratio := 0.25,
      min_num_trials := 100, max_num_trials := 10000, confidence := 0.9999\<rparr> =
    default_options_with_multiplier"
    by (simp add: multiplier_colmap_def default_options_with_multiplier_def)
  then show
    "fundamental_matrix_estimation_scalars multiplier_colmap p1 p2 4 0.25 100 10000 0.9999 w =
     fundamental_matrix_estimation multiplier_colmap p1 p2 default_options_with_multiplier w"
    "essential_matrix_estimation_scalars multiplier_colmap p1 p2 c1 c2 4 0.25 100 10000 0.9999 w =
     essential_matrix_estimation multiplier_colmap p1 p2 c1 c2 default_options_with_multiplier w"
    unfolding scalars_fundamental scalars_essential by simp_all
qed

subsection \<open>The two call shapes\<close>

text \<open>
  C9, as stated, fails where the options struct has a field beyond the five: the scalar
  overloads set the five fields of a default-constructed struct, so a further field keeps
  its default. In the instance with the multiplier, the struct with the multiplier 0 has
  its five fields equal to the five scalars, yet the overload with the scalars reports a
  success and the overload with this struct a failure, on either path.
\<close>

theorem scalar_overload_keeps_default_fields:
  "max_error no_trials_options = 4
   \<and> min_inlier_ratio no_trials_options = 0.25
   \<and> min_num_trials no_trials_options = 100
   \<and> max_num_trials no_trials_options = 10000
   \<and> confidence no_trials_options = 0.9999
   \<and> report_field (fst (fundamental_matrix_estimation_scalars multiplier_colmap
        seven_points1 seven_points2 4 0.25 100 10000 0.9999 busy_world)) ''success'' =
       Some (PyBool True)
   \<and> report_field (fst (fundamental_matrix_estimation multiplier_colmap
        seven_points1 seven_points2 no_trials_options busy_world)) ''success'' =
       Some (PyBool False)
   \<and> report_field (fst (essential_matrix_estimation_scalars multiplier_colmap
        seven_points1 seven_points2 2 2 4 0.25 100 10000 0.9999 busy_world)) ''success'' =
       Some (PyBool True)
   \<and> report_field (fst (essential_matrix_estimation multiplier_colmap
        seven_points1 seven_points2 2 2 no_trials_options busy_world)) ''success'' =
       Some (PyBool False)"
proof -
  have n: "length seven_points1 = length seven_points2"
    by (simp add: seven_points1_def seven_points2_def)
  have m: "length seven_points1 = 7" "length seven_points2 = 7"
    by (simp_all add: seven_points1_def seven_points2_def)
  have fields: "max_error no_trials_options = 4 \<and> min_inlier_ratio no_trials_options = 0.25
     \<and> min_num_trials no_trials_options = 100 \<and> max_num_trials no_trials_options = 10000
     \<and> confidence no_trials_options = 0.9999"
    by (simp add: no_trials_options_def default_options_with_multiplier_def)
  have "report_field (fst (fundamental_matrix_estimation_scalars multiplier_colmap
        seven_points1 seven_points2 4 0.25 100 10000 0.9999 busy_world)) ''success'' =
       Some (PyBool True)"
    unfolding multiplier_scalars
    by (simp add: fundamental_unfold [OF n] multiplier_fundamental_default report_field_def)
  moreover have "report_field (fst (fundamental_matrix_estimation multiplier_colmap
        seven_points1 seven_points2 no_trials_options busy_world)) ''success'' =
       Some (PyBool False)"
    by (simp add: fundamental_unfold [OF n] multiplier_no_trials report_field_def
        failure_dict_def)
  moreover have "report_field (fst (essential_matrix_estimation_scalars multiplier_colmap
        seven_points1 seven_points2 2 2 4 0.25 100 10000 0.9999 busy_world)) ''success'' =
       Some (PyBool True)"
    unfolding multiplier_scalars
    by (simp add: essential_unfold [OF n] multiplier_essential_default
        essential_result_success m report_field_def)
  moreover have "report_field (fst (essential_matrix_estimation multiplier_colmap
        seven_points1 seven_points2 2 2 no_trials_options busy_world)) ''success'' =
       Some (PyBool False)"
    by (simp add: essential_unfold [OF n] multiplier_no_trials essential_result_failure
        report_field_def failure_dict_def)
  ultimately show ?thesis using fields by blast
qed

text \<open>
  C9, amended. For either operation, the overload with five scalars returns what the
  overload with the options struct returns (the outcome and the state left behind) when
  the struct's five fields are the five scalars and its other fields, if it has any, are
  those of a default-constructed struct.
\<close>

theorem scalar_overload_is_options_overload_with_defaults:
  fixes env :: "('d::{plus,times,inverse,numeral}, 'cam, 'g, 'z) colmap"
    and options :: "('d, 'z) RANSACOptions_scheme"
  assumes "max_error options = max_error_px"
    and "min_inlier_ratio options = min_inlier_ratio_arg"
    and "min_num_trials options = min_num_trials_arg"
    and "max_num_trials options = max_num_trials_arg"
    and "confidence options = confidence_arg"
    and "RANSACOptions.more options = RANSACOptions.more (RANSACOptions_default env)"
  shows "essential_matrix_estimation_scalars env points2D1 points2D2 camera1 camera2
           max_error_px min_inlier_ratio_arg min_num_trials_arg max_num_trials_arg
           confidence_arg w =
         essential_matrix_estimation env points2D1 points2D2 camera1 camera2 options w
       \<and> fundamental_matrix_estimation_scalars env points2D1 points2D2
           max_error_px min_inlier_ratio_arg min_num_trials_arg max_num_trials_arg
           confidence_arg w =
         fundamental_matrix_estimation env points2D1 points2D2 options w"
proof -
  have "(RANSACOptions_default env)\<lparr>max_error := max_error_px,
          min_inlier_ratio := min_inlier_ratio_arg, min_num_trials := min_num_trials_arg,
          max_num_trials := max_num_trials_arg, confidence := confidence_arg\<rparr> = options"
    using assms by (intro assemble_options) simp_all
  then show ?thesis
    by (simp add: scalars_essential scalars_fundamental)
qed

theorem scalar_overload_is_options_overload_with_defaults_witness:
  "max_error (default_options_with_multiplier\<lparr>max_error := 1, min_num_trials := 7\<rparr>) = 1
   \<and> min_inlier_ratio (default_options_with_multiplier\<lparr>max_error := 1, min_num_trials := 7\<rparr>)
       = 0.25
   \<and> min_num_trials (default_options_with_multiplier\<lparr>max_error := 1, min_num_trials := 7\<rparr>) = 7
   \<and> max_num_trials (default_options_with_multiplier\<lparr>max_error := 1, min_num_trials := 7\<rparr>)
       = 10000
   \<and> confidence (default_options_with_multiplier\<lparr>max_error := 1, min_num_trials := 7\<rparr>)
       = 0.9999
   \<and> RANSACOptions.more (default_options_with_multiplier\<lparr>max_error := 1, min_num_trials := 7\<rparr>)
       = RANSACOptions.more (RANSACOptions_default multiplier_colmap)
   \<and> essential_matrix_estimation_scalars multiplier_colmap seven_points1 seven_points2 2 2
        1 0.25 7 10000 0.9999 busy_world =
      essential_matrix_estimation multiplier_colmap seven_points1 seven_points2 2 2
        (default_options_with_multiplier\<lparr>max_error := 1, min_num_trials := 7\<rparr>) busy_world
   \<and> fundamental_matrix_estimation_scalars multiplier_colmap seven_points1 seven_points2
        1 0.25 7 10000 0.9999 busy_world =
      fundamental_matrix_estimation multiplier_colmap seven_points1 seven_points2
        (default_options_with_multiplier\<lparr>max_error := 1, min_num_trials := 7\<rparr>) busy_world"
proof -
  let ?o = "default_options_with_multiplier\<lparr>max_error := 1, min_num_trials := 7\<rparr>"
  have h: "max_error ?o = 1" "min_inlier_ratio ?o = 0.25" "min_num_trials ?o = 7"
    "max_num_trials ?o = 10000" "confidence ?o = 0.9999"
    "RANSACOptions.more ?o = RANSACOptions.more (RANSACOptions_default multiplier_colmap)"
    by (simp_all add: default_options_with_multiplier_def multiplier_colmap_def)
  from scalar_overload_is_options_overload_with_defaults [OF h, of seven_points1 seven_points2
      2 2 busy_world] h
  show ?thesis by simp
qed


subsection \<open>What a call changes\<close>



end
